theory Spec2Isabelle
  imports Main
begin

section \<open>Downtime activities: the data model\<close>

text \<open>
  The module \<^verbatim>\<open>downtime-module.js\<close> declares one item type. Its custom data lives
  under \<^verbatim>\<open>item.system\<close> and is declared field by field in
  \<^verbatim>\<open>DowntimeActivity.defineSchema\<close>. An entry of \<^verbatim>\<open>system.outcomes\<close> is a
  range of roll totals with a text; both numbers are integer fields.
\<close>

record outcome =
  minRoll :: int
  maxRoll :: int
  description :: string

text \<open>
  \<^verbatim>\<open>rollDie\<close> is a string field. The roll method tests it with JavaScript's
  \<^verbatim>\<open>!\<close>, which holds of the empty string and of an absent value alike, so the
  field is an optional string here: \<open>None\<close> is the unset field.
\<close>

record system =
  description :: string
  duration :: string
  cost :: string
  isComplete :: bool
  rollDie :: "string option"
  currentOutcome :: string
  outcomes :: "outcome list"

text \<open>
  The item itself: the name the base class gives it (read as \<^verbatim>\<open>this.name\<close>) and
  the custom data.
\<close>

record item =
  name :: string
  system :: system

text \<open>
  The \<^verbatim>\<open>initial\<close> value of every field of the schema, lines 26 to 43 of the
  source.
\<close>

definition defineSchema :: system where
  "defineSchema =
     \<lparr>system.description = '''',
      duration = ''1 day'',
      cost = ''0'',
      isComplete = False,
      rollDie = Some ''1d20'',
      currentOutcome = '''',
      outcomes =
        [\<lparr>minRoll = 1, maxRoll = 7, outcome.description = ''''\<rparr>,
         \<lparr>minRoll = 8, maxRoll = 15, outcome.description = ''''\<rparr>,
         \<lparr>minRoll = 16, maxRoll = 20, outcome.description = ''''\<rparr>]\<rparr>"

section \<open>The host application\<close>

text \<open>
  Everything the module does besides changing the item goes through objects of the host
  application: localisation, the dice engine, chat, notifications, the console and the
  sheet's renderer. None of them is part of the module, so they are parameters of the
  model. A value interpolated into a message is a string or a number.
\<close>

datatype jsvalue = Str string | Num int

text \<open>What the user and the host can observe of one call, in the order it happens.\<close>

datatype effect =
    NotifyWarn string
  | NotifyInfo string
  | NotifyError string
  | ConsoleError string string
  | ChatMessageCreate "jsvalue list" "int option"
  | Render

text \<open>
  The host calls that the roll method makes inside its \<^verbatim>\<open>try\<close> block, after the
  roll is evaluated. Any of them may throw, and the method's \<^verbatim>\<open>catch\<close> clause is
  where such an exception arrives.
  \<^item> \<open>DocumentUpdate\<close> is the awaited \<^verbatim>\<open>this.update\<close> of line 87: a rejection of
    its promise is thrown at the \<^verbatim>\<open>await\<close>.
  \<^item> \<open>ChatCreate\<close> is the synchronous part of lines 96 to 100 only: the call of
    \<^verbatim>\<open>ChatMessage.getSpeaker\<close> and the call of \<^verbatim>\<open>ChatMessage.create\<close> itself. The
    promise that \<^verbatim>\<open>create\<close> returns is not awaited, so a rejection of it never reaches
    the \<^verbatim>\<open>catch\<close> clause: the method goes on as if the message had been created, and
    the model has no failure for it.
  \<^item> \<open>NotificationsInfo\<close> is line 102, \<^verbatim>\<open>game.i18n.format\<close> and
    \<^verbatim>\<open>ui.notifications.info\<close>, both synchronous.
\<close>

datatype hostcall = DocumentUpdate | ChatCreate | NotificationsInfo

text \<open>
  \<^item> \<open>localize\<close> and \<open>format\<close> are \<^verbatim>\<open>game.i18n.localize\<close> and
    \<^verbatim>\<open>game.i18n.format\<close>;
  \<^item> \<open>evaluate e\<close> is \<^verbatim>\<open>(await new Roll(e).evaluate({async: true})).total\<close>:
    \<open>Inr n\<close> is the total, \<open>Inl m\<close> is an exception with message \<open>m\<close> (an
    expression the dice engine cannot parse, for example);
  \<^item> \<open>throws c = Some m\<close> says that the host call \<open>c\<close> throws an exception with
    message \<open>m\<close> when the roll method makes it inside its \<^verbatim>\<open>try\<close> block. An update
    that throws is taken to leave the document as it was: that is an assumption about the
    host's document store, which the module's code neither makes true nor checks.
    Outside that block the source has no handler, and host calls are modelled as
    returning.
\<close>

record host =
  localize :: "string \<Rightarrow> string"
  format :: "string \<Rightarrow> (string \<times> jsvalue) list \<Rightarrow> string"
  evaluate :: "string \<Rightarrow> string + int"
  throws :: "hostcall \<Rightarrow> string option"

section \<open>\<^verbatim>\<open>DowntimeActivity.rollDowntimeActivity\<close>\<close>

text \<open>
  Lines 73 to 79: the loop over \<^verbatim>\<open>this.system.outcomes\<close> that stops at the first
  range holding the roll. \<open>None\<close> is the \<^verbatim>\<open>null\<close> the variable starts with.
\<close>

fun matchedOutcome :: "int \<Rightarrow> outcome list \<Rightarrow> outcome option" where
  "matchedOutcome rollResult [] = None"
| "matchedOutcome rollResult (outcome # rest) =
     (if rollResult \<ge> minRoll outcome \<and> rollResult \<le> maxRoll outcome
      then Some outcome
      else matchedOutcome rollResult rest)"

text \<open>
  Lines 81 to 84: the text is the localised \<^verbatim>\<open>DOWNTIME.NoOutcomeFound\<close> unless a
  range matched, and that range's description otherwise.
\<close>

definition outcomeText :: "host \<Rightarrow> int \<Rightarrow> outcome list \<Rightarrow> string" where
  "outcomeText h rollResult os =
     (case matchedOutcome rollResult os of
        None \<Rightarrow> localize h ''DOWNTIME.NoOutcomeFound''
      | Some outcome \<Rightarrow> outcome.description outcome)"

text \<open>
  Lines 90 to 94: the chat message's content, a template literal. Its pieces are kept
  apart (the layout whitespace between the tags is left out).
\<close>

definition chatContent :: "host \<Rightarrow> item \<Rightarrow> int \<Rightarrow> string \<Rightarrow> string \<Rightarrow> jsvalue list" where
  "chatContent h this rollResult rollExpression text =
     [Str ''<h2>'', Str (name this), Str '' - '',
      Str (localize h ''DOWNTIME.ActivityRoll''), Str ''</h2>'',
      Str ''<p>'', Str (localize h ''DOWNTIME.Rolled''), Str '': <strong>'',
      Num rollResult, Str ''</strong> ('', Str rollExpression, Str '')</p>'',
      Str ''<div>'', Str (localize h ''DOWNTIME.Outcome''), Str '': '', Str text,
      Str ''</div>'']"

text \<open>
  Lines 104 to 107: the \<^verbatim>\<open>catch\<close> clause. It writes to the console and shows an
  error notification; it restores nothing.
\<close>

definition catch :: "host \<Rightarrow> string \<Rightarrow> effect list" where
  "catch h err =
     [ConsoleError ''Downtime Activities | Failed to roll downtime activity:'' err,
      NotifyError (format h ''DOWNTIME.RollError'' [(''error'', Str err)])]"

text \<open>
  The method, lines 62 to 108. It returns the item as the call leaves it and what the
  call showed. \<^verbatim>\<open>this.update({"system.currentOutcome": outcomeText})\<close> is the only
  write.
\<close>

definition rollDowntimeActivity :: "host \<Rightarrow> item \<Rightarrow> item \<times> effect list" where
  "rollDowntimeActivity h this =
     (case rollDie (system this) of
        None \<Rightarrow> (this, [NotifyWarn (localize h ''DOWNTIME.NoRollDieWarning'')])
      | Some rollExpression \<Rightarrow>
          if rollExpression = [] then
            (this, [NotifyWarn (localize h ''DOWNTIME.NoRollDieWarning'')])
          else
            (case evaluate h rollExpression of
               Inl err \<Rightarrow> (this, catch h err)
             | Inr rollResult \<Rightarrow>
                 (let text = outcomeText h rollResult (outcomes (system this)) in
                  case throws h DocumentUpdate of
                    Some err \<Rightarrow> (this, catch h err)
                  | None \<Rightarrow>
                      (let updated = this\<lparr>system := (system this)\<lparr>currentOutcome := text\<rparr>\<rparr>;
                           chat = ChatMessageCreate
                             (chatContent h updated rollResult rollExpression text)
                             (Some rollResult)
                       in case throws h ChatCreate of
                            Some err \<Rightarrow> (updated, catch h err)
                          | None \<Rightarrow>
                              (case throws h NotificationsInfo of
                                 Some err \<Rightarrow> (updated, chat # catch h err)
                               | None \<Rightarrow>
                                   (updated,
                                    [chat,
                                     NotifyInfo
                                       (format h ''DOWNTIME.RollCompleteNotification''
                                          [(''name'', Str (name updated)),
                                           (''roll'', Num rollResult)])]))))))"

section \<open>\<^verbatim>\<open>DowntimeActivity.performActivity\<close>\<close>

text \<open>
  Lines 114 to 122: one update, one chat message, one notification. There is no test of
  the item's state and no handler.
\<close>

definition performActivity :: "host \<Rightarrow> item \<Rightarrow> item \<times> effect list" where
  "performActivity h this =
     (let updated = this\<lparr>system := (system this)\<lparr>isComplete := True\<rparr>\<rparr> in
      (updated,
       [ChatMessageCreate
          [Str (format h ''DOWNTIME.ActivityCompletedChat''
                  [(''name'', Str (name updated)),
                   (''outcome'', Str (currentOutcome (system updated)))])]
          None,
        NotifyInfo
          (format h ''DOWNTIME.ActivityCompletedNotification''
             [(''name'', Str (name updated))])]))"

section \<open>\<^verbatim>\<open>DowntimeActivitySheet.activateListeners\<close>\<close>

text \<open>
  \<^verbatim>\<open>parseInt\<close> returns a number with an integer value, or \<^verbatim>\<open>NaN\<close> when the
  attribute is missing or does not start with digits.
\<close>

datatype jsnumber = NaN | Number int

text \<open>
  \<^verbatim>\<open>Array.prototype.splice(start, 1)\<close> as ECMAScript defines it: \<^verbatim>\<open>NaN\<close> counts
  as 0, a negative start counts from the end, the start is clamped to the array, and at
  most the elements that are there are deleted.
\<close>

definition toIntegerOrInfinity :: "jsnumber \<Rightarrow> int" where
  "toIntegerOrInfinity n = (case n of NaN \<Rightarrow> 0 | Number i \<Rightarrow> i)"

definition splice :: "jsnumber \<Rightarrow> int \<Rightarrow> 'a list \<Rightarrow> 'a list" where
  "splice start deleteCount xs =
     (let len = int (length xs);
          relativeStart = toIntegerOrInfinity start;
          actualStart =
            (if relativeStart < 0 then max (len + relativeStart) 0
             else min relativeStart len);
          actualDeleteCount = min (max deleteCount 0) (len - actualStart)
      in take (nat actualStart) xs @ drop (nat (actualStart + actualDeleteCount)) xs)"

text \<open>
  The four click handlers, lines 164 to 194. Each ends by rendering the sheet again.
  \<^verbatim>\<open>foundry.utils.deepClone\<close> copies the array so that the item's own is not
  changed before the update; lists are values here, so the copy is the list.
\<close>

definition completeButtonClick :: "host \<Rightarrow> item \<Rightarrow> item \<times> effect list" where
  "completeButtonClick h this =
     (let (updated, shown) = performActivity h this in (updated, shown @ [Render]))"

definition rollButtonClick :: "host \<Rightarrow> item \<Rightarrow> item \<times> effect list" where
  "rollButtonClick h this =
     (let (updated, shown) = rollDowntimeActivity h this in (updated, shown @ [Render]))"

definition addOutcomeButtonClick :: "item \<Rightarrow> item \<times> effect list" where
  "addOutcomeButtonClick this =
     (let os = outcomes (system this) @
                 [\<lparr>minRoll = 1, maxRoll = 20, outcome.description = ''''\<rparr>]
      in (this\<lparr>system := (system this)\<lparr>outcomes := os\<rparr>\<rparr>, [Render]))"

definition removeOutcomeButtonClick :: "jsnumber \<Rightarrow> item \<Rightarrow> item \<times> effect list" where
  "removeOutcomeButtonClick index this =
     (let os = splice index 1 (outcomes (system this))
      in (this\<lparr>system := (system this)\<lparr>outcomes := os\<rparr>\<rparr>, [Render]))"

text \<open>
  A click on the sheet: which button, and for the remove button the parsed
  \<^verbatim>\<open>data-index\<close> of the clicked element.
\<close>

datatype click =
    CompleteButton
  | RollButton
  | AddOutcomeButton
  | RemoveOutcomeButton jsnumber

fun activateListeners :: "host \<Rightarrow> click \<Rightarrow> item \<Rightarrow> item \<times> effect list" where
  "activateListeners h CompleteButton this = completeButtonClick h this"
| "activateListeners h RollButton this = rollButtonClick h this"
| "activateListeners h AddOutcomeButton this = addOutcomeButtonClick this"
| "activateListeners h (RemoveOutcomeButton index) this = removeOutcomeButtonClick index this"

text \<open>
  A session at the sheet: clicks one after the other, each answered by the host as it is
  at that moment (the dice differ from roll to roll).
\<close>

fun session :: "(host \<times> click) list \<Rightarrow> item \<Rightarrow> item" where
  "session [] this = this"
| "session ((h, c) # rest) this = session rest (fst (activateListeners h c this))"

text \<open>Whether a call told the user that something went wrong.\<close>

fun isProblemReport :: "effect \<Rightarrow> bool" where
  "isProblemReport (NotifyWarn m) = True"
| "isProblemReport (NotifyError m) = True"
| "isProblemReport e = False"

fun isRollClick :: "host \<times> click \<Rightarrow> bool" where
  "isRollClick (h, RollButton) = True"
| "isRollClick (h, c) = False"

section \<open>Concrete hosts and items\<close>

text \<open>
  A host with no translations loaded (a key stands for itself) whose dice engine knows
  one expression, and the same host with a chat log whose call throws at once.
\<close>

definition plainHost :: host where
  "plainHost =
     \<lparr>localize = (\<lambda>key. key),
      format = (\<lambda>key args. key),
      evaluate = (\<lambda>e. if e = ''1d20'' then Inr 8 else Inl ''Unresolved roll expression''),
      throws = (\<lambda>c. None)\<rparr>"

definition brokenChatHost :: host where
  "brokenChatHost = plainHost\<lparr>throws := (\<lambda>c. if c = ChatCreate then Some ''chat is down'' else None)\<rparr>"

definition threeRanges :: "outcome list" where
  "threeRanges =
     [\<lparr>minRoll = 1, maxRoll = 7, outcome.description = ''A''\<rparr>,
      \<lparr>minRoll = 8, maxRoll = 15, outcome.description = ''B''\<rparr>,
      \<lparr>minRoll = 16, maxRoll = 20, outcome.description = ''C''\<rparr>]"

definition freshItem :: item where
  "freshItem = \<lparr>name = ''Carousing'', system = defineSchema\<rparr>"

definition lettersItem :: item where
  "lettersItem = \<lparr>name = ''Carousing'', system = defineSchema\<lparr>outcomes := threeRanges\<rparr>\<rparr>"

text \<open>
  The same host with a document store that refuses the update, the same host with
  notifications that throw, and items whose die
  expression is blank, unset, or one the dice engine rejects, and an item already
  marked complete.
\<close>

definition lockedHost :: host where
  "lockedHost =
     plainHost\<lparr>throws := (\<lambda>c. if c = DocumentUpdate then Some ''update refused'' else None)\<rparr>"

definition brokenNotifyHost :: host where
  "brokenNotifyHost =
     plainHost\<lparr>throws := (\<lambda>c. if c = NotificationsInfo then Some ''no notifications'' else None)\<rparr>"

definition blankDieItem :: item where
  "blankDieItem = \<lparr>name = ''Carousing'', system = defineSchema\<lparr>rollDie := Some ''''\<rparr>\<rparr>"

definition unsetDieItem :: item where
  "unsetDieItem = \<lparr>name = ''Carousing'', system = defineSchema\<lparr>rollDie := None\<rparr>\<rparr>"

definition badDieItem :: item where
  "badDieItem = \<lparr>name = ''Carousing'', system = defineSchema\<lparr>rollDie := Some ''d20x''\<rparr>\<rparr>"

definition completedItem :: item where
  "completedItem = \<lparr>name = ''Carousing'', system = defineSchema\<lparr>isComplete := True\<rparr>\<rparr>"

section \<open>Resolving a roll\<close>

text \<open>The loop is the library's search for the first element that satisfies a test.\<close>

lemma matchedOutcome_find:
  "matchedOutcome r os = find (\<lambda>outcome. minRoll outcome \<le> r \<and> r \<le> maxRoll outcome) os"
  by (induction os) auto

lemma matchedOutcome_None:
  "(matchedOutcome r os = None) = (\<forall>outcome \<in> set os. \<not> (minRoll outcome \<le> r \<and> r \<le> maxRoll outcome))"
  by (induction os) auto

lemma matchedOutcome_first:
  "i < length os \<Longrightarrow> minRoll (os ! i) \<le> r \<Longrightarrow> r \<le> maxRoll (os ! i) \<Longrightarrow>
   \<forall>j < i. \<not> (minRoll (os ! j) \<le> r \<and> r \<le> maxRoll (os ! j)) \<Longrightarrow>
   matchedOutcome r os = Some (os ! i)"
proof (induction os arbitrary: i)
  case Nil
  then show ?case by simp
next
  case (Cons a os)
  show ?case
  proof (cases i)
    case 0
    with Cons.prems show ?thesis by simp
  next
    case (Suc k)
    from Cons.prems(4) Suc have a: "\<not> (minRoll a \<le> r \<and> r \<le> maxRoll a)" by fastforce
    have "\<forall>j < k. \<not> (minRoll (os ! j) \<le> r \<and> r \<le> maxRoll (os ! j))"
    proof (intro allI impI)
      fix j assume "j < k"
      then have "Suc j < i" using Suc by simp
      with Cons.prems(4) have "\<not> (minRoll ((a # os) ! Suc j) \<le> r \<and> r \<le> maxRoll ((a # os) ! Suc j))" by blast
      then show "\<not> (minRoll (os ! j) \<le> r \<and> r \<le> maxRoll (os ! j))" by simp
    qed
    with Cons.prems Suc have "matchedOutcome r os = Some (os ! k)"
      by (intro Cons.IH) simp_all
    with a Suc show ?thesis by auto
  qed
qed

text \<open>
  Claim C1. For every integer roll \<open>r\<close>, every list of ranges \<open>os\<close> and every host:
  if the range at position \<open>i\<close> holds \<open>r\<close> and no range before it does, the text is
  that range's description; if no range holds \<open>r\<close>, and so for the empty list, the text is
  the localised \<^verbatim>\<open>DOWNTIME.NoOutcomeFound\<close>. On the ranges 1 to 7 "A", 8 to 15 "B",
  16 to 20 "C" the text is "A" for 1 and 7, "B" for 8, "C" for 20, and the "no outcome
  found" text for 21 and 0.
\<close>

theorem outcomeText_first_match:
  "(\<forall>i < length os.
      minRoll (os ! i) \<le> r \<and> r \<le> maxRoll (os ! i) \<and>
      (\<forall>j < i. \<not> (minRoll (os ! j) \<le> r \<and> r \<le> maxRoll (os ! j)))
      \<longrightarrow> outcomeText h r os = outcome.description (os ! i))
   \<and> ((\<forall>outcome \<in> set os. \<not> (minRoll outcome \<le> r \<and> r \<le> maxRoll outcome))
      \<longrightarrow> outcomeText h r os = localize h ''DOWNTIME.NoOutcomeFound'')
   \<and> outcomeText h r [] = localize h ''DOWNTIME.NoOutcomeFound''
   \<and> outcomeText h 1 threeRanges = ''A''
   \<and> outcomeText h 7 threeRanges = ''A''
   \<and> outcomeText h 8 threeRanges = ''B''
   \<and> outcomeText h 20 threeRanges = ''C''
   \<and> outcomeText h 21 threeRanges = localize h ''DOWNTIME.NoOutcomeFound''
   \<and> outcomeText h 0 threeRanges = localize h ''DOWNTIME.NoOutcomeFound''"
proof -
  have first: "\<forall>i < length os.
      minRoll (os ! i) \<le> r \<and> r \<le> maxRoll (os ! i) \<and>
      (\<forall>j < i. \<not> (minRoll (os ! j) \<le> r \<and> r \<le> maxRoll (os ! j)))
      \<longrightarrow> outcomeText h r os = outcome.description (os ! i)"
    by (simp add: outcomeText_def matchedOutcome_first)
  have none: "(\<forall>outcome \<in> set os. \<not> (minRoll outcome \<le> r \<and> r \<le> maxRoll outcome))
      \<longrightarrow> outcomeText h r os = localize h ''DOWNTIME.NoOutcomeFound''"
  proof
    assume "\<forall>outcome \<in> set os. \<not> (minRoll outcome \<le> r \<and> r \<le> maxRoll outcome)"
    then have "matchedOutcome r os = None"
      by (simp only: matchedOutcome_None)
    then show "outcomeText h r os = localize h ''DOWNTIME.NoOutcomeFound''"
      by (simp add: outcomeText_def)
  qed
  have empty: "outcomeText h r [] = localize h ''DOWNTIME.NoOutcomeFound''"
    by (simp add: outcomeText_def)
  have ex: "outcomeText h 1 threeRanges = ''A''" "outcomeText h 7 threeRanges = ''A''"
    "outcomeText h 8 threeRanges = ''B''" "outcomeText h 20 threeRanges = ''C''"
    "outcomeText h 21 threeRanges = localize h ''DOWNTIME.NoOutcomeFound''"
    "outcomeText h 0 threeRanges = localize h ''DOWNTIME.NoOutcomeFound''"
    by (simp_all add: outcomeText_def threeRanges_def)
  from first none empty ex show ?thesis by blast
qed

text \<open>The general part at the roll 12, which the second range holds, and at 33, which none holds.\<close>

theorem outcomeText_first_match_witness:
  "(1::nat) < length threeRanges
   \<and> minRoll (threeRanges ! 1) \<le> 12 \<and> 12 \<le> maxRoll (threeRanges ! 1)
   \<and> \<not> (minRoll (threeRanges ! 0) \<le> 12 \<and> 12 \<le> maxRoll (threeRanges ! 0))
   \<and> outcomeText plainHost 12 threeRanges = outcome.description (threeRanges ! 1)
   \<and> outcomeText plainHost 12 threeRanges = ''B''
   \<and> \<not> list_ex (\<lambda>outcome. minRoll outcome \<le> 33 \<and> 33 \<le> maxRoll outcome) threeRanges
   \<and> outcomeText plainHost 33 threeRanges = ''DOWNTIME.NoOutcomeFound''"
proof -
  have len: "(1::nat) < length threeRanges"
    by (simp add: threeRanges_def)
  have hit: "minRoll (threeRanges ! 1) \<le> 12 \<and> 12 \<le> maxRoll (threeRanges ! 1)"
    by (simp add: threeRanges_def)
  have before: "\<forall>j < (1::nat). \<not> (minRoll (threeRanges ! j) \<le> 12 \<and> 12 \<le> maxRoll (threeRanges ! j))"
    by (simp add: threeRanges_def)
  have miss: "\<forall>outcome \<in> set threeRanges. \<not> (minRoll outcome \<le> 33 \<and> 33 \<le> maxRoll outcome)"
    by (simp add: threeRanges_def)
  from outcomeText_first_match [of threeRanges 12 plainHost] len hit before
  have a: "outcomeText plainHost 12 threeRanges = outcome.description (threeRanges ! 1)"
    by blast
  from outcomeText_first_match [of threeRanges 33 plainHost] miss
  have b: "outcomeText plainHost 33 threeRanges = localize plainHost ''DOWNTIME.NoOutcomeFound''"
    by blast
  from len hit a b show ?thesis
    by (simp add: threeRanges_def plainHost_def)
qed


section \<open>Removing a range\<close>

text \<open>What \<^verbatim>\<open>splice(index, 1)\<close> does, by where the index lies.\<close>

lemma splice_one_past_end:
  "int (length xs) \<le> i \<Longrightarrow> splice (Number i) 1 xs = xs"
  by (simp add: splice_def toIntegerOrInfinity_def Let_def min_def)

lemma splice_one_valid:
  "0 \<le> i \<Longrightarrow> i < int (length xs) \<Longrightarrow>
   splice (Number i) 1 xs = take (nat i) xs @ drop (Suc (nat i)) xs"
  by (simp add: splice_def toIntegerOrInfinity_def Let_def min_def nat_add_distrib)

lemma splice_one_negative:
  "i < 0 \<Longrightarrow> xs \<noteq> [] \<Longrightarrow>
   splice (Number i) 1 xs =
     take (nat (int (length xs) + i)) xs @ drop (Suc (nat (int (length xs) + i))) xs"
  by (cases xs) (auto simp add: splice_def toIntegerOrInfinity_def Let_def min_def max_def nat_add_distrib)

lemma splice_one_NaN:
  "splice NaN 1 xs = tl xs"
  by (cases xs) (simp_all add: splice_def toIntegerOrInfinity_def Let_def min_def drop_Suc)

lemma length_remove_at:
  "k < length xs \<Longrightarrow> length (take k xs @ drop (Suc k) xs) = length xs - 1"
  by simp

lemma nth_remove_at_before:
  "j < k \<Longrightarrow> k < length xs \<Longrightarrow> (take k xs @ drop (Suc k) xs) ! j = xs ! j"
  by (simp add: nth_append)

lemma nth_remove_at_after:
  "k \<le> j \<Longrightarrow> Suc j < length xs \<Longrightarrow> (take k xs @ drop (Suc k) xs) ! j = xs ! Suc j"
  by (simp add: nth_append min_def)

text \<open>
  Claim C2, as the code has it. The remove handler tests nothing and reports nothing: for
  every item and every index all it shows is the rendered sheet. An index at or past the
  end of the list leaves \<^verbatim>\<open>outcomes\<close> as it was. A negative index counts from the end
  (and from the start when it reaches before it), so on a list that is not empty it removes
  one range; an index that is not a number removes the first range.
\<close>

theorem removeOutcome_no_index_check:
  "\<not> list_ex isProblemReport (snd (removeOutcomeButtonClick index this))
   \<and> snd (removeOutcomeButtonClick index this) = [Render]
   \<and> (\<forall>i. index = Number i \<and> int (length (outcomes (system this))) \<le> i \<longrightarrow>
        outcomes (system (fst (removeOutcomeButtonClick index this))) = outcomes (system this))
   \<and> (\<forall>i. index = Number i \<and> i < 0 \<and> outcomes (system this) \<noteq> [] \<longrightarrow>
        outcomes (system (fst (removeOutcomeButtonClick index this))) =
          take (nat (int (length (outcomes (system this))) + i)) (outcomes (system this)) @
          drop (Suc (nat (int (length (outcomes (system this))) + i))) (outcomes (system this)))
   \<and> (index = NaN \<longrightarrow>
        outcomes (system (fst (removeOutcomeButtonClick index this))) = tl (outcomes (system this)))"
  by (simp add: removeOutcomeButtonClick_def Let_def splice_one_past_end splice_one_negative
      splice_one_NaN)

text \<open>The index 5 on three ranges, and the indices -1 and \<^verbatim>\<open>NaN\<close> on the lettered ranges.\<close>

theorem removeOutcome_no_index_check_witness:
  "int (length (outcomes (system freshItem))) \<le> 5
   \<and> outcomes (system (fst (removeOutcomeButtonClick (Number 5) freshItem))) = outcomes (system freshItem)
   \<and> snd (removeOutcomeButtonClick (Number 5) freshItem) = [Render]
   \<and> outcomes (system (fst (removeOutcomeButtonClick (Number (- 1)) lettersItem))) =
       [\<lparr>minRoll = 1, maxRoll = 7, outcome.description = ''A''\<rparr>,
        \<lparr>minRoll = 8, maxRoll = 15, outcome.description = ''B''\<rparr>]
   \<and> outcomes (system (fst (removeOutcomeButtonClick NaN lettersItem))) =
       [\<lparr>minRoll = 8, maxRoll = 15, outcome.description = ''B''\<rparr>,
        \<lparr>minRoll = 16, maxRoll = 20, outcome.description = ''C''\<rparr>]"
proof -
  have len: "int (length (outcomes (system freshItem))) \<le> 5"
    by (simp add: freshItem_def defineSchema_def)
  have ne: "outcomes (system lettersItem) \<noteq> []"
    by (simp add: lettersItem_def defineSchema_def threeRanges_def)
  from removeOutcome_no_index_check [of "Number 5" freshItem] len
  have a: "outcomes (system (fst (removeOutcomeButtonClick (Number 5) freshItem))) = outcomes (system freshItem)
           \<and> snd (removeOutcomeButtonClick (Number 5) freshItem) = [Render]"
    by blast
  from removeOutcome_no_index_check [of "Number (- 1)" lettersItem] ne
  have "outcomes (system (fst (removeOutcomeButtonClick (Number (- 1)) lettersItem))) =
          take (nat (int (length (outcomes (system lettersItem))) + (- 1))) (outcomes (system lettersItem)) @
          drop (Suc (nat (int (length (outcomes (system lettersItem))) + (- 1)))) (outcomes (system lettersItem))"
    by simp
  then have b: "outcomes (system (fst (removeOutcomeButtonClick (Number (- 1)) lettersItem))) =
       [\<lparr>minRoll = 1, maxRoll = 7, outcome.description = ''A''\<rparr>,
        \<lparr>minRoll = 8, maxRoll = 15, outcome.description = ''B''\<rparr>]"
    by (simp add: lettersItem_def defineSchema_def threeRanges_def)
  from removeOutcome_no_index_check [of NaN lettersItem]
  have "outcomes (system (fst (removeOutcomeButtonClick NaN lettersItem))) = tl (outcomes (system lettersItem))"
    by simp
  then have c: "outcomes (system (fst (removeOutcomeButtonClick NaN lettersItem))) =
       [\<lparr>minRoll = 8, maxRoll = 15, outcome.description = ''B''\<rparr>,
        \<lparr>minRoll = 16, maxRoll = 20, outcome.description = ''C''\<rparr>]"
    by (simp add: lettersItem_def defineSchema_def threeRanges_def)
  from len a b c show ?thesis by simp
qed

text \<open>
  The claim as the specification words it fails: on a fresh item the index 5 is answered
  with no report of any kind, and the indices -1 and \<^verbatim>\<open>NaN\<close> are answered with no
  report and with two ranges left of three.
\<close>

theorem removeOutcome_bad_index_counterexample:
  "\<not> list_ex isProblemReport (snd (removeOutcomeButtonClick (Number 5) freshItem))
   \<and> \<not> list_ex isProblemReport (snd (removeOutcomeButtonClick (Number (- 1)) freshItem))
   \<and> outcomes (system (fst (removeOutcomeButtonClick (Number (- 1)) freshItem))) \<noteq> outcomes (system freshItem)
   \<and> length (outcomes (system (fst (removeOutcomeButtonClick (Number (- 1)) freshItem)))) = 2
   \<and> \<not> list_ex isProblemReport (snd (removeOutcomeButtonClick NaN freshItem))
   \<and> length (outcomes (system (fst (removeOutcomeButtonClick NaN freshItem)))) = 2"
  by (simp add: removeOutcomeButtonClick_def splice_def toIntegerOrInfinity_def Let_def
      freshItem_def defineSchema_def)

text \<open>
  Claim C6. For every item and every index \<open>i\<close> with \<open>0 \<le> i < length outcomes\<close>, the
  remove handler leaves the ranges before position \<open>i\<close> followed by the ranges after it:
  the list is one shorter, a range before \<open>i\<close> keeps its position and a range after \<open>i\<close>
  moves down by one.
\<close>

theorem removeOutcome_valid_index:
  "0 \<le> i \<Longrightarrow> i < int (length (outcomes (system this))) \<Longrightarrow>
   outcomes (system (fst (removeOutcomeButtonClick (Number i) this))) =
     take (nat i) (outcomes (system this)) @ drop (Suc (nat i)) (outcomes (system this))
   \<and> length (outcomes (system (fst (removeOutcomeButtonClick (Number i) this)))) =
       length (outcomes (system this)) - 1
   \<and> (\<forall>j < nat i.
        outcomes (system (fst (removeOutcomeButtonClick (Number i) this))) ! j =
        outcomes (system this) ! j)
   \<and> (\<forall>j. nat i \<le> j \<and> Suc j < length (outcomes (system this)) \<longrightarrow>
        outcomes (system (fst (removeOutcomeButtonClick (Number i) this))) ! j =
        outcomes (system this) ! Suc j)"
proof -
  assume lo: "0 \<le> i" and hi: "i < int (length (outcomes (system this)))"
  let ?os = "outcomes (system this)"
  let ?os' = "outcomes (system (fst (removeOutcomeButtonClick (Number i) this)))"
  from hi lo have k: "nat i < length ?os" by simp
  have eq: "?os' = take (nat i) ?os @ drop (Suc (nat i)) ?os"
    using lo hi by (simp add: removeOutcomeButtonClick_def Let_def splice_one_valid)
  have len: "length ?os' = length ?os - 1"
    unfolding eq using k by (rule length_remove_at)
  have before: "\<forall>j < nat i. ?os' ! j = ?os ! j"
    unfolding eq using k by (simp add: nth_remove_at_before)
  have after: "\<forall>j. nat i \<le> j \<and> Suc j < length ?os \<longrightarrow> ?os' ! j = ?os ! Suc j"
    unfolding eq by (simp add: nth_remove_at_after)
  from eq len before after show ?thesis by blast
qed

text \<open>Removing the middle one of the lettered ranges.\<close>

theorem removeOutcome_valid_index_witness:
  "(0::int) \<le> 1 \<and> 1 < int (length (outcomes (system lettersItem)))
   \<and> outcomes (system (fst (removeOutcomeButtonClick (Number 1) lettersItem))) =
       [\<lparr>minRoll = 1, maxRoll = 7, outcome.description = ''A''\<rparr>,
        \<lparr>minRoll = 16, maxRoll = 20, outcome.description = ''C''\<rparr>]
   \<and> length (outcomes (system (fst (removeOutcomeButtonClick (Number 1) lettersItem)))) = 2"
proof -
  have lo: "(0::int) \<le> 1" by simp
  have hi: "1 < int (length (outcomes (system lettersItem)))"
    by (simp add: lettersItem_def defineSchema_def threeRanges_def)
  from removeOutcome_valid_index [OF lo hi]
  have "outcomes (system (fst (removeOutcomeButtonClick (Number 1) lettersItem))) =
     take (nat 1) (outcomes (system lettersItem)) @ drop (Suc (nat 1)) (outcomes (system lettersItem))"
    and "length (outcomes (system (fst (removeOutcomeButtonClick (Number 1) lettersItem)))) =
       length (outcomes (system lettersItem)) - 1"
    by blast+
  with lo hi show ?thesis
    by (simp add: lettersItem_def defineSchema_def threeRanges_def)
qed

section \<open>Rolling: what a failed call leaves behind\<close>

text \<open>
  Claim C3. For every item whose \<^verbatim>\<open>rollDie\<close> is the empty string or unset, and every
  host, the roll method shows the user one warning, the localised
  \<^verbatim>\<open>DOWNTIME.NoRollDieWarning\<close>, and nothing else, and returns the item as it was:
  every field, \<^verbatim>\<open>currentOutcome\<close> among them, is unchanged. The same holds of the item
  after the click on the roll button.
\<close>

theorem rollDowntimeActivity_missing_expression:
  "rollDie (system this) = None \<or> rollDie (system this) = Some [] \<Longrightarrow>
   rollDowntimeActivity h this = (this, [NotifyWarn (localize h ''DOWNTIME.NoRollDieWarning'')])
   \<and> list_ex isProblemReport (snd (rollDowntimeActivity h this))
   \<and> fst (rollButtonClick h this) = this"
  by (auto simp add: rollDowntimeActivity_def rollButtonClick_def)

text \<open>
  With the die expression blank, and with it unset.
\<close>

theorem rollDowntimeActivity_missing_expression_witness:
  "rollDie (system blankDieItem) = Some []
   \<and> rollDowntimeActivity plainHost blankDieItem =
       (blankDieItem, [NotifyWarn ''DOWNTIME.NoRollDieWarning''])
   \<and> rollDie (system unsetDieItem) = None
   \<and> rollDowntimeActivity plainHost unsetDieItem =
       (unsetDieItem, [NotifyWarn ''DOWNTIME.NoRollDieWarning''])"
proof -
  have blank: "rollDie (system blankDieItem) = Some []"
    by (simp add: blankDieItem_def)
  have unset: "rollDie (system unsetDieItem) = None"
    by (simp add: unsetDieItem_def)
  from blank rollDowntimeActivity_missing_expression [of blankDieItem plainHost]
  have a: "rollDowntimeActivity plainHost blankDieItem =
       (blankDieItem, [NotifyWarn (localize plainHost ''DOWNTIME.NoRollDieWarning'')])"
    by blast
  from unset rollDowntimeActivity_missing_expression [of unsetDieItem plainHost]
  have b: "rollDowntimeActivity plainHost unsetDieItem =
       (unsetDieItem, [NotifyWarn (localize plainHost ''DOWNTIME.NoRollDieWarning'')])"
    by blast
  from blank unset a b show ?thesis
    by (simp add: plainHost_def)
qed

text \<open>
  Whatever happens, the roll method writes no field but \<^verbatim>\<open>currentOutcome\<close>; and a call
  that both changed the item and reported a problem failed in the chat message or in the
  closing notification.
\<close>

lemma rollDowntimeActivity_writes_currentOutcome_only:
  "(fst (rollDowntimeActivity h this))
     \<lparr>system := (system (fst (rollDowntimeActivity h this)))
        \<lparr>currentOutcome := currentOutcome (system this)\<rparr>\<rparr> = this"
  by (simp add: rollDowntimeActivity_def Let_def split: option.splits sum.splits)

lemma rollDowntimeActivity_changed_after_write:
  "fst (rollDowntimeActivity h this) \<noteq> this \<Longrightarrow>
   list_ex isProblemReport (snd (rollDowntimeActivity h this)) \<Longrightarrow>
   throws h ChatCreate \<noteq> None \<or> throws h NotificationsInfo \<noteq> None"
  by (auto simp add: rollDowntimeActivity_def Let_def chatContent_def
      split: option.splits sum.splits if_splits)

text \<open>Both lines of the \<^verbatim>\<open>catch\<close> clause are shown, whatever the message.\<close>

lemma catch_reports: "list_ex isProblemReport (catch h m)"
  by (simp add: catch_def)

text \<open>
  Claim C4, as the code has it. A call of the roll method that reports a problem leaves
  the item unchanged when it fails before anything is written, and only then:
  \<^item> when the die expression is empty or unset, it shows the warning and returns the item
    as it was;
  \<^item> when the dice engine throws, it shows the \<^verbatim>\<open>catch\<close> clause's console line and
    error notification and returns the item as it was;
  \<^item> when the awaited update throws, it shows the same two and writes nothing itself (the
    item is then as the host's refused update left it, taken here to be unchanged);
  \<^item> when, after the update, the chat message's call throws at once, or the closing
    notification throws, it shows the same two (after the chat message, in the second
    case), and the item it returns has \<^verbatim>\<open>currentOutcome\<close> set to the text resolved
    for the roll.

  When nothing throws, the item has the resolved text and no problem is shown. Every
  result of the \<^verbatim>\<open>catch\<close> clause, and the warning, is a problem report. So a call that
  reports a problem while neither the chat message's call nor the closing notification
  throws returns the item as it was. In every call, failed or not, all fields other than
  \<^verbatim>\<open>currentOutcome\<close> keep their values.
\<close>

theorem rollDowntimeActivity_failures:
  "(rollDie (system this) = None \<or> rollDie (system this) = Some [] \<longrightarrow>
      rollDowntimeActivity h this =
        (this, [NotifyWarn (localize h ''DOWNTIME.NoRollDieWarning'')]))
   \<and> (\<forall>e m. rollDie (system this) = Some e \<and> e \<noteq> [] \<and> evaluate h e = Inl m \<longrightarrow>
        rollDowntimeActivity h this = (this, catch h m))
   \<and> (\<forall>e n m. rollDie (system this) = Some e \<and> e \<noteq> [] \<and> evaluate h e = Inr n
          \<and> throws h DocumentUpdate = Some m \<longrightarrow>
        rollDowntimeActivity h this = (this, catch h m))
   \<and> (\<forall>e n m. rollDie (system this) = Some e \<and> e \<noteq> [] \<and> evaluate h e = Inr n
          \<and> throws h DocumentUpdate = None \<and> throws h ChatCreate = Some m \<longrightarrow>
        rollDowntimeActivity h this =
          (this\<lparr>system := (system this)
             \<lparr>currentOutcome := outcomeText h n (outcomes (system this))\<rparr>\<rparr>,
           catch h m))
   \<and> (\<forall>e n m. rollDie (system this) = Some e \<and> e \<noteq> [] \<and> evaluate h e = Inr n
          \<and> throws h DocumentUpdate = None \<and> throws h ChatCreate = None
          \<and> throws h NotificationsInfo = Some m \<longrightarrow>
        rollDowntimeActivity h this =
          (this\<lparr>system := (system this)
             \<lparr>currentOutcome := outcomeText h n (outcomes (system this))\<rparr>\<rparr>,
           ChatMessageCreate
             (chatContent h
                (this\<lparr>system := (system this)
                   \<lparr>currentOutcome := outcomeText h n (outcomes (system this))\<rparr>\<rparr>)
                n e (outcomeText h n (outcomes (system this))))
             (Some n)
           # catch h m))
   \<and> (\<forall>e n. rollDie (system this) = Some e \<and> e \<noteq> [] \<and> evaluate h e = Inr n
          \<and> throws h DocumentUpdate = None \<and> throws h ChatCreate = None
          \<and> throws h NotificationsInfo = None \<longrightarrow>
        fst (rollDowntimeActivity h this) =
          this\<lparr>system := (system this)
            \<lparr>currentOutcome := outcomeText h n (outcomes (system this))\<rparr>\<rparr>
        \<and> \<not> list_ex isProblemReport (snd (rollDowntimeActivity h this)))
   \<and> (\<forall>m. list_ex isProblemReport (catch h m)
          \<and> list_ex isProblemReport [NotifyWarn (localize h ''DOWNTIME.NoRollDieWarning'')])
   \<and> (list_ex isProblemReport (snd (rollDowntimeActivity h this))
        \<and> throws h ChatCreate = None \<and> throws h NotificationsInfo = None \<longrightarrow>
        fst (rollDowntimeActivity h this) = this)
   \<and> (fst (rollDowntimeActivity h this))
        \<lparr>system := (system (fst (rollDowntimeActivity h this)))
           \<lparr>currentOutcome := currentOutcome (system this)\<rparr>\<rparr> = this"
proof -
  have missing: "rollDie (system this) = None \<or> rollDie (system this) = Some [] \<longrightarrow>
      rollDowntimeActivity h this =
        (this, [NotifyWarn (localize h ''DOWNTIME.NoRollDieWarning'')])"
    by (auto simp add: rollDowntimeActivity_def)
  have evaluation: "\<forall>e m. rollDie (system this) = Some e \<and> e \<noteq> [] \<and> evaluate h e = Inl m \<longrightarrow>
        rollDowntimeActivity h this = (this, catch h m)"
    by (simp add: rollDowntimeActivity_def)
  have update: "\<forall>e n m. rollDie (system this) = Some e \<and> e \<noteq> [] \<and> evaluate h e = Inr n
          \<and> throws h DocumentUpdate = Some m \<longrightarrow>
        rollDowntimeActivity h this = (this, catch h m)"
    by (simp add: rollDowntimeActivity_def)
  have chat: "\<forall>e n m. rollDie (system this) = Some e \<and> e \<noteq> [] \<and> evaluate h e = Inr n
          \<and> throws h DocumentUpdate = None \<and> throws h ChatCreate = Some m \<longrightarrow>
        rollDowntimeActivity h this =
          (this\<lparr>system := (system this)
             \<lparr>currentOutcome := outcomeText h n (outcomes (system this))\<rparr>\<rparr>,
           catch h m)"
    by (simp add: rollDowntimeActivity_def Let_def)
  have info: "\<forall>e n m. rollDie (system this) = Some e \<and> e \<noteq> [] \<and> evaluate h e = Inr n
          \<and> throws h DocumentUpdate = None \<and> throws h ChatCreate = None
          \<and> throws h NotificationsInfo = Some m \<longrightarrow>
        rollDowntimeActivity h this =
          (this\<lparr>system := (system this)
             \<lparr>currentOutcome := outcomeText h n (outcomes (system this))\<rparr>\<rparr>,
           ChatMessageCreate
             (chatContent h
                (this\<lparr>system := (system this)
                   \<lparr>currentOutcome := outcomeText h n (outcomes (system this))\<rparr>\<rparr>)
                n e (outcomeText h n (outcomes (system this))))
             (Some n)
           # catch h m)"
    by (simp add: rollDowntimeActivity_def Let_def)
  have success: "\<forall>e n. rollDie (system this) = Some e \<and> e \<noteq> [] \<and> evaluate h e = Inr n
          \<and> throws h DocumentUpdate = None \<and> throws h ChatCreate = None
          \<and> throws h NotificationsInfo = None \<longrightarrow>
        fst (rollDowntimeActivity h this) =
          this\<lparr>system := (system this)
            \<lparr>currentOutcome := outcomeText h n (outcomes (system this))\<rparr>\<rparr>
        \<and> \<not> list_ex isProblemReport (snd (rollDowntimeActivity h this))"
    by (simp add: rollDowntimeActivity_def Let_def)
  have reports: "\<forall>m. list_ex isProblemReport (catch h m)
          \<and> list_ex isProblemReport [NotifyWarn (localize h ''DOWNTIME.NoRollDieWarning'')]"
    by (simp add: catch_reports)
  have early: "list_ex isProblemReport (snd (rollDowntimeActivity h this))
        \<and> throws h ChatCreate = None \<and> throws h NotificationsInfo = None \<longrightarrow>
        fst (rollDowntimeActivity h this) = this"
    using rollDowntimeActivity_changed_after_write [of h this] by blast
  from missing evaluation update chat info success reports early
    rollDowntimeActivity_writes_currentOutcome_only
  show ?thesis by (intro conjI)
qed

text \<open>
  One call for each case: a die expression the dice engine rejects, a host that refuses
  the update, a blank die expression, a chat message whose call throws, a closing
  notification that throws, and a roll in which nothing fails.
\<close>

theorem rollDowntimeActivity_failures_witness:
  "rollDie (system badDieItem) = Some ''d20x''
   \<and> evaluate plainHost ''d20x'' = Inl ''Unresolved roll expression''
   \<and> rollDowntimeActivity plainHost badDieItem =
       (badDieItem, catch plainHost ''Unresolved roll expression'')
   \<and> rollDie (system lettersItem) = Some ''1d20''
   \<and> evaluate lockedHost ''1d20'' = Inr 8
   \<and> throws lockedHost DocumentUpdate = Some ''update refused''
   \<and> rollDowntimeActivity lockedHost lettersItem = (lettersItem, catch lockedHost ''update refused'')
   \<and> list_ex isProblemReport (snd (rollDowntimeActivity lockedHost lettersItem))
   \<and> throws lockedHost ChatCreate = None \<and> throws lockedHost NotificationsInfo = None
   \<and> rollDie (system blankDieItem) = Some []
   \<and> rollDowntimeActivity plainHost blankDieItem =
       (blankDieItem, [NotifyWarn ''DOWNTIME.NoRollDieWarning''])
   \<and> evaluate brokenChatHost ''1d20'' = Inr 8
   \<and> throws brokenChatHost DocumentUpdate = None
   \<and> throws brokenChatHost ChatCreate = Some ''chat is down''
   \<and> rollDowntimeActivity brokenChatHost lettersItem =
       (lettersItem\<lparr>system := (system lettersItem)\<lparr>currentOutcome := ''B''\<rparr>\<rparr>,
        [ConsoleError ''Downtime Activities | Failed to roll downtime activity:'' ''chat is down'',
         NotifyError ''DOWNTIME.RollError''])
   \<and> evaluate brokenNotifyHost ''1d20'' = Inr 8
   \<and> throws brokenNotifyHost DocumentUpdate = None
   \<and> throws brokenNotifyHost ChatCreate = None
   \<and> throws brokenNotifyHost NotificationsInfo = Some ''no notifications''
   \<and> fst (rollDowntimeActivity brokenNotifyHost lettersItem) =
       lettersItem\<lparr>system := (system lettersItem)\<lparr>currentOutcome := ''B''\<rparr>\<rparr>
   \<and> tl (snd (rollDowntimeActivity brokenNotifyHost lettersItem)) =
       [ConsoleError ''Downtime Activities | Failed to roll downtime activity:'' ''no notifications'',
         NotifyError ''DOWNTIME.RollError'']
   \<and> evaluate plainHost ''1d20'' = Inr 8
   \<and> throws plainHost DocumentUpdate = None \<and> throws plainHost ChatCreate = None
   \<and> throws plainHost NotificationsInfo = None
   \<and> fst (rollDowntimeActivity plainHost lettersItem) =
       lettersItem\<lparr>system := (system lettersItem)\<lparr>currentOutcome := ''B''\<rparr>\<rparr>
   \<and> \<not> list_ex isProblemReport (snd (rollDowntimeActivity plainHost lettersItem))"
proof -
  have bad: "rollDie (system badDieItem) = Some ''d20x''" "''d20x'' \<noteq> []"
    "evaluate plainHost ''d20x'' = Inl ''Unresolved roll expression''"
    by (simp_all add: badDieItem_def plainHost_def)
  have die: "rollDie (system lettersItem) = Some ''1d20''" "''1d20'' \<noteq> []"
    by (simp_all add: lettersItem_def defineSchema_def)
  have resolved: "outcomeText h 8 (outcomes (system lettersItem)) = ''B''" for h
    by (simp add: outcomeText_def lettersItem_def threeRanges_def)
  have locked: "evaluate lockedHost ''1d20'' = Inr 8"
    "throws lockedHost DocumentUpdate = Some ''update refused''"
    "throws lockedHost ChatCreate = None" "throws lockedHost NotificationsInfo = None"
    by (simp_all add: lockedHost_def plainHost_def)
  have brokenChat: "evaluate brokenChatHost ''1d20'' = Inr 8"
    "throws brokenChatHost DocumentUpdate = None"
    "throws brokenChatHost ChatCreate = Some ''chat is down''"
    by (simp_all add: brokenChatHost_def plainHost_def)
  have brokenNotify: "evaluate brokenNotifyHost ''1d20'' = Inr 8"
    "throws brokenNotifyHost DocumentUpdate = None"
    "throws brokenNotifyHost ChatCreate = None"
    "throws brokenNotifyHost NotificationsInfo = Some ''no notifications''"
    by (simp_all add: brokenNotifyHost_def plainHost_def)
  have plain: "evaluate plainHost ''1d20'' = Inr 8"
    "throws plainHost DocumentUpdate = None" "throws plainHost ChatCreate = None"
    "throws plainHost NotificationsInfo = None"
    by (simp_all add: plainHost_def)
  have blank: "rollDie (system blankDieItem) = Some []"
    by (simp add: blankDieItem_def)
  from bad rollDowntimeActivity_failures [of badDieItem plainHost]
  have a: "rollDowntimeActivity plainHost badDieItem =
       (badDieItem, catch plainHost ''Unresolved roll expression'')"
    by blast
  from die locked rollDowntimeActivity_failures [of lettersItem lockedHost]
  have b: "rollDowntimeActivity lockedHost lettersItem = (lettersItem, catch lockedHost ''update refused'')"
    by blast
  from rollDowntimeActivity_failures [of lettersItem lockedHost]
  have "list_ex isProblemReport (catch lockedHost ''update refused'')"
    by blast
  with b have c: "list_ex isProblemReport (snd (rollDowntimeActivity lockedHost lettersItem))"
    by simp
  from blank rollDowntimeActivity_failures [of blankDieItem plainHost]
  have "rollDowntimeActivity plainHost blankDieItem =
       (blankDieItem, [NotifyWarn (localize plainHost ''DOWNTIME.NoRollDieWarning'')])"
    by blast
  then have d: "rollDowntimeActivity plainHost blankDieItem =
       (blankDieItem, [NotifyWarn ''DOWNTIME.NoRollDieWarning''])"
    by (simp add: plainHost_def)
  from die brokenChat rollDowntimeActivity_failures [of lettersItem brokenChatHost]
  have "rollDowntimeActivity brokenChatHost lettersItem =
          (lettersItem\<lparr>system := (system lettersItem)
             \<lparr>currentOutcome := outcomeText brokenChatHost 8 (outcomes (system lettersItem))\<rparr>\<rparr>,
           catch brokenChatHost ''chat is down'')"
    by blast
  then have e: "rollDowntimeActivity brokenChatHost lettersItem =
       (lettersItem\<lparr>system := (system lettersItem)\<lparr>currentOutcome := ''B''\<rparr>\<rparr>,
        [ConsoleError ''Downtime Activities | Failed to roll downtime activity:'' ''chat is down'',
         NotifyError ''DOWNTIME.RollError''])"
    by (simp add: resolved catch_def brokenChatHost_def plainHost_def)
  from die brokenNotify rollDowntimeActivity_failures [of lettersItem brokenNotifyHost]
  have "rollDowntimeActivity brokenNotifyHost lettersItem =
          (lettersItem\<lparr>system := (system lettersItem)
             \<lparr>currentOutcome := outcomeText brokenNotifyHost 8 (outcomes (system lettersItem))\<rparr>\<rparr>,
           ChatMessageCreate
             (chatContent brokenNotifyHost
                (lettersItem\<lparr>system := (system lettersItem)
                   \<lparr>currentOutcome := outcomeText brokenNotifyHost 8 (outcomes (system lettersItem))\<rparr>\<rparr>)
                8 ''1d20'' (outcomeText brokenNotifyHost 8 (outcomes (system lettersItem))))
             (Some 8)
           # catch brokenNotifyHost ''no notifications'')"
    by blast
  then have f: "fst (rollDowntimeActivity brokenNotifyHost lettersItem) =
       lettersItem\<lparr>system := (system lettersItem)\<lparr>currentOutcome := ''B''\<rparr>\<rparr>"
    and g: "tl (snd (rollDowntimeActivity brokenNotifyHost lettersItem)) =
       [ConsoleError ''Downtime Activities | Failed to roll downtime activity:'' ''no notifications'',
         NotifyError ''DOWNTIME.RollError'']"
    by (simp_all add: resolved catch_def brokenNotifyHost_def plainHost_def)
  from die plain rollDowntimeActivity_failures [of lettersItem plainHost]
  have "fst (rollDowntimeActivity plainHost lettersItem) =
          lettersItem\<lparr>system := (system lettersItem)
            \<lparr>currentOutcome := outcomeText plainHost 8 (outcomes (system lettersItem))\<rparr>\<rparr>
        \<and> \<not> list_ex isProblemReport (snd (rollDowntimeActivity plainHost lettersItem))"
    by blast
  then have i: "fst (rollDowntimeActivity plainHost lettersItem) =
       lettersItem\<lparr>system := (system lettersItem)\<lparr>currentOutcome := ''B''\<rparr>\<rparr>"
    and j: "\<not> list_ex isProblemReport (snd (rollDowntimeActivity plainHost lettersItem))"
    by (simp_all add: resolved)
  from bad die locked brokenChat brokenNotify plain blank a b c d e f g i j
  show ?thesis by (intro conjI)
qed

text \<open>
  The claim as the specification words it, for any failure during the operation, fails.
  The update of line 87 comes before the notification of line 102, inside the same
  \<^verbatim>\<open>try\<close> block. When the notification throws, the chat message is out, the
  \<^verbatim>\<open>catch\<close> clause reports the error, and \<^verbatim>\<open>currentOutcome\<close>, empty before the
  call, holds "B" after it.
\<close>

theorem rollDowntimeActivity_failure_after_update_counterexample:
  "list_ex isProblemReport (snd (rollDowntimeActivity brokenNotifyHost lettersItem))
   \<and> snd (rollDowntimeActivity brokenNotifyHost lettersItem) =
       [ChatMessageCreate
          [Str ''<h2>'', Str ''Carousing'', Str '' - '', Str ''DOWNTIME.ActivityRoll'',
           Str ''</h2>'', Str ''<p>'', Str ''DOWNTIME.Rolled'', Str '': <strong>'', Num 8,
           Str ''</strong> ('', Str ''1d20'', Str '')</p>'', Str ''<div>'',
           Str ''DOWNTIME.Outcome'', Str '': '', Str ''B'', Str ''</div>'']
          (Some 8),
        ConsoleError ''Downtime Activities | Failed to roll downtime activity:'' ''no notifications'',
        NotifyError ''DOWNTIME.RollError'']
   \<and> fst (rollDowntimeActivity brokenNotifyHost lettersItem) \<noteq> lettersItem
   \<and> currentOutcome (system lettersItem) = ''''
   \<and> currentOutcome (system (fst (rollDowntimeActivity brokenNotifyHost lettersItem))) = ''B''"
  by (simp add: rollDowntimeActivity_def Let_def brokenNotifyHost_def plainHost_def
      lettersItem_def defineSchema_def threeRanges_def outcomeText_def catch_def chatContent_def)

section \<open>Marking an activity complete\<close>

text \<open>
  Claim C5. For every item and every host, \<^verbatim>\<open>performActivity\<close> returns the item with
  \<^verbatim>\<open>isComplete\<close> true, and shows no warning and no error. Applied again, under any
  host, to the item it returned, it returns that same item, \<^verbatim>\<open>isComplete\<close> still true;
  so does a second click on the complete button.
\<close>

theorem performActivity_idempotent:
  "isComplete (system (fst (performActivity h this)))
   \<and> fst (performActivity h' (fst (performActivity h this))) = fst (performActivity h this)
   \<and> isComplete (system (fst (performActivity h' (fst (performActivity h this)))))
   \<and> \<not> list_ex isProblemReport (snd (performActivity h this))
   \<and> fst (completeButtonClick h' (fst (completeButtonClick h this))) = fst (completeButtonClick h this)"
  by (simp add: performActivity_def completeButtonClick_def Let_def)

text \<open>A fresh item, completed under one host and again under another.\<close>

theorem performActivity_idempotent_witness:
  "isComplete (system freshItem) = False
   \<and> isComplete (system (fst (performActivity plainHost freshItem)))
   \<and> fst (performActivity brokenChatHost (fst (performActivity plainHost freshItem))) =
       fst (performActivity plainHost freshItem)
   \<and> snd (performActivity plainHost freshItem) =
       [ChatMessageCreate [Str ''DOWNTIME.ActivityCompletedChat''] None,
        NotifyInfo ''DOWNTIME.ActivityCompletedNotification'']"
proof -
  have before: "isComplete (system freshItem) = False"
    by (simp add: freshItem_def defineSchema_def)
  have shown: "snd (performActivity plainHost freshItem) =
       [ChatMessageCreate [Str ''DOWNTIME.ActivityCompletedChat''] None,
        NotifyInfo ''DOWNTIME.ActivityCompletedNotification'']"
    by (simp add: performActivity_def Let_def plainHost_def)
  from performActivity_idempotent [of plainHost freshItem brokenChatHost] before shown
  show ?thesis by blast
qed

text \<open>
  Claim C10. For every item and every host, the item \<^verbatim>\<open>performActivity\<close> returns is the
  item it was given with \<^verbatim>\<open>isComplete\<close> set to true: the name, the description, the
  duration, the cost, the die expression, the current outcome and the outcome ranges are
  what they were.
\<close>

theorem performActivity_frame:
  "fst (performActivity h this) = this\<lparr>system := (system this)\<lparr>isComplete := True\<rparr>\<rparr>
   \<and> name (fst (performActivity h this)) = name this
   \<and> system.description (system (fst (performActivity h this))) = system.description (system this)
   \<and> duration (system (fst (performActivity h this))) = duration (system this)
   \<and> cost (system (fst (performActivity h this))) = cost (system this)
   \<and> rollDie (system (fst (performActivity h this))) = rollDie (system this)
   \<and> currentOutcome (system (fst (performActivity h this))) = currentOutcome (system this)
   \<and> outcomes (system (fst (performActivity h this))) = outcomes (system this)"
  by (simp add: performActivity_def Let_def)

text \<open>The item with the lettered ranges, field by field, after completion.\<close>

theorem performActivity_frame_witness:
  "fst (performActivity plainHost lettersItem) =
     \<lparr>name = ''Carousing'',
      system = \<lparr>system.description = '''', duration = ''1 day'', cost = ''0'',
                isComplete = True, rollDie = Some ''1d20'', currentOutcome = '''',
                outcomes = threeRanges\<rparr>\<rparr>"
proof -
  have "lettersItem\<lparr>system := (system lettersItem)\<lparr>isComplete := True\<rparr>\<rparr> =
     \<lparr>name = ''Carousing'',
      system = \<lparr>system.description = '''', duration = ''1 day'', cost = ''0'',
                isComplete = True, rollDie = Some ''1d20'', currentOutcome = '''',
                outcomes = threeRanges\<rparr>\<rparr>"
    by (simp add: lettersItem_def defineSchema_def)
  with performActivity_frame [of plainHost lettersItem] show ?thesis
    by simp
qed

section \<open>Adding a range\<close>

text \<open>
  Claim C7. For every item, the add handler leaves \<^verbatim>\<open>outcomes\<close> as the old list
  followed by the range 1 to 20 with the empty description: the list is one longer, its
  first \<open>length outcomes\<close> elements are the old list, and its last element is the new
  range.
\<close>

theorem addOutcome_appends_default:
  "outcomes (system (fst (addOutcomeButtonClick this))) =
     outcomes (system this) @ [\<lparr>minRoll = 1, maxRoll = 20, outcome.description = ''''\<rparr>]
   \<and> length (outcomes (system (fst (addOutcomeButtonClick this)))) =
       length (outcomes (system this)) + 1
   \<and> take (length (outcomes (system this))) (outcomes (system (fst (addOutcomeButtonClick this)))) =
       outcomes (system this)
   \<and> last (outcomes (system (fst (addOutcomeButtonClick this)))) =
       \<lparr>minRoll = 1, maxRoll = 20, outcome.description = ''''\<rparr>"
  by (simp add: addOutcomeButtonClick_def Let_def)

text \<open>A fourth range after the three lettered ones.\<close>

theorem addOutcome_appends_default_witness:
  "outcomes (system (fst (addOutcomeButtonClick lettersItem))) =
     [\<lparr>minRoll = 1, maxRoll = 7, outcome.description = ''A''\<rparr>,
      \<lparr>minRoll = 8, maxRoll = 15, outcome.description = ''B''\<rparr>,
      \<lparr>minRoll = 16, maxRoll = 20, outcome.description = ''C''\<rparr>,
      \<lparr>minRoll = 1, maxRoll = 20, outcome.description = ''''\<rparr>]
   \<and> length (outcomes (system (fst (addOutcomeButtonClick lettersItem)))) = 4"
proof -
  have "outcomes (system lettersItem) = threeRanges"
    by (simp add: lettersItem_def)
  with addOutcome_appends_default [of lettersItem] show ?thesis
    by (simp add: threeRanges_def)
qed

section \<open>Sessions at the sheet\<close>

text \<open>
  No handler writes \<^verbatim>\<open>isComplete\<close> but the complete button's, which sets it.
\<close>

lemma activateListeners_keeps_isComplete:
  "isComplete (system this) \<Longrightarrow> isComplete (system (fst (activateListeners h c this)))"
  by (cases c)
    (simp_all add: completeButtonClick_def performActivity_def rollButtonClick_def
      rollDowntimeActivity_def addOutcomeButtonClick_def removeOutcomeButtonClick_def
      Let_def split_def split: option.splits sum.splits)

text \<open>
  Claim C8. For every item with \<^verbatim>\<open>isComplete\<close> true and every sequence of clicks on the
  roll, complete, add and remove buttons, with any index and under any hosts,
  \<^verbatim>\<open>isComplete\<close> is true after the sequence, hence after each of its clicks.
\<close>

theorem isComplete_one_way:
  "isComplete (system this) \<Longrightarrow> isComplete (system (session evs this))"
proof (induction evs arbitrary: this)
  case Nil
  then show ?case by simp
next
  case (Cons ev evs)
  obtain h c where ev: "ev = (h, c)" by (cases ev)
  from Cons.prems have "isComplete (system (fst (activateListeners h c this)))"
    by (rule activateListeners_keeps_isComplete)
  then have "isComplete (system (session evs (fst (activateListeners h c this))))"
    by (rule Cons.IH)
  with ev show ?case by simp
qed

text \<open>
  Two rolls (one of them failing after its update), an added range, two removals and a
  second completion, on an item already complete.
\<close>

theorem isComplete_one_way_witness:
  "isComplete (system completedItem)
   \<and> isComplete (system (session
        [(plainHost, RollButton), (brokenChatHost, RollButton), (plainHost, AddOutcomeButton),
         (plainHost, RemoveOutcomeButton (Number 0)), (plainHost, RemoveOutcomeButton NaN),
         (plainHost, CompleteButton)] completedItem))"
proof -
  have c: "isComplete (system completedItem)"
    by (simp add: completedItem_def)
  from isComplete_one_way [OF c, of
        "[(plainHost, RollButton), (brokenChatHost, RollButton), (plainHost, AddOutcomeButton),
         (plainHost, RemoveOutcomeButton (Number 0)), (plainHost, RemoveOutcomeButton NaN),
         (plainHost, CompleteButton)]"] c
  show ?thesis by blast
qed

text \<open>
  Only the roll button writes \<^verbatim>\<open>currentOutcome\<close>.
\<close>

lemma activateListeners_keeps_currentOutcome:
  "\<not> isRollClick (h, c) \<Longrightarrow>
   currentOutcome (system (fst (activateListeners h c this))) = currentOutcome (system this)"
  by (cases c)
    (simp_all add: completeButtonClick_def performActivity_def addOutcomeButtonClick_def
      removeOutcomeButtonClick_def Let_def)

lemma session_keeps_currentOutcome:
  "\<not> list_ex isRollClick evs \<Longrightarrow>
   currentOutcome (system (session evs this)) = currentOutcome (system this)"
proof (induction evs arbitrary: this)
  case Nil
  then show ?case by simp
next
  case (Cons ev evs)
  obtain h c where ev: "ev = (h, c)" by (cases ev)
  from Cons.prems ev have now: "\<not> isRollClick (h, c)" and later: "\<not> list_ex isRollClick evs"
    by simp_all
  have "currentOutcome (system (session evs (fst (activateListeners h c this)))) =
        currentOutcome (system (fst (activateListeners h c this)))"
    using later by (rule Cons.IH)
  also have "\<dots> = currentOutcome (system this)"
    using now by (rule activateListeners_keeps_currentOutcome)
  finally show ?case using ev by simp
qed

text \<open>
  Claim C9. The schema's initial values give a new item exactly three outcome ranges, 1 to
  7, 8 to 15 and 16 to 20, each with the empty description, \<^verbatim>\<open>isComplete\<close> false and
  \<^verbatim>\<open>currentOutcome\<close> empty; and on an item with these values \<^verbatim>\<open>currentOutcome\<close> is
  still empty after every sequence of clicks without a click on the roll button.
\<close>

theorem defineSchema_initial_values:
  "outcomes defineSchema =
     [\<lparr>minRoll = 1, maxRoll = 7, outcome.description = ''''\<rparr>,
      \<lparr>minRoll = 8, maxRoll = 15, outcome.description = ''''\<rparr>,
      \<lparr>minRoll = 16, maxRoll = 20, outcome.description = ''''\<rparr>]
   \<and> length (outcomes defineSchema) = 3
   \<and> isComplete defineSchema = False
   \<and> currentOutcome defineSchema = ''''
   \<and> (system this = defineSchema \<and> \<not> list_ex isRollClick evs \<longrightarrow>
        currentOutcome (system (session evs this)) = '''')"
proof -
  have "system this = defineSchema \<and> \<not> list_ex isRollClick evs \<longrightarrow>
        currentOutcome (system (session evs this)) = ''''"
    using session_keeps_currentOutcome [of evs this] by (auto simp add: defineSchema_def)
  then show ?thesis by (simp add: defineSchema_def)
qed

text \<open>
  A fresh item after an added range, a removal and a completion.
\<close>

theorem defineSchema_initial_values_witness:
  "system freshItem = defineSchema
   \<and> \<not> list_ex isRollClick
        [(plainHost, AddOutcomeButton), (plainHost, RemoveOutcomeButton (Number 0)),
         (plainHost, CompleteButton)]
   \<and> currentOutcome (system (session
        [(plainHost, AddOutcomeButton), (plainHost, RemoveOutcomeButton (Number 0)),
         (plainHost, CompleteButton)] freshItem)) = ''''
   \<and> outcomes (system freshItem) =
     [\<lparr>minRoll = 1, maxRoll = 7, outcome.description = ''''\<rparr>,
      \<lparr>minRoll = 8, maxRoll = 15, outcome.description = ''''\<rparr>,
      \<lparr>minRoll = 16, maxRoll = 20, outcome.description = ''''\<rparr>]"
proof -
  have fresh: "system freshItem = defineSchema"
    by (simp add: freshItem_def)
  have noroll: "\<not> list_ex isRollClick
        [(plainHost, AddOutcomeButton), (plainHost, RemoveOutcomeButton (Number 0)),
         (plainHost, CompleteButton)]"
    by simp
  from fresh noroll defineSchema_initial_values [of freshItem
        "[(plainHost, AddOutcomeButton), (plainHost, RemoveOutcomeButton (Number 0)),
         (plainHost, CompleteButton)]"]
  show ?thesis by simp
qed

end
